theory Spec2Isabelle
  imports Complex_Main
begin

section \<open>JavaScript values\<close>

text \<open>
  The service of \<^verbatim>\<open>master.js\<close> handles JSON request bodies, event objects of the
  session library and thrown values. They are modelled by one type of JavaScript values.
  An object is the list of the properties a read of it can see (own or inherited), in the
  order of the object literal. Numbers are the finite ones, \<^verbatim>\<open>NaN\<close> and the two
  infinities (\<open>JInfinity True\<close> is the positive one); \<^verbatim>\<open>-0\<close> is not told from
  \<^verbatim>\<open>0\<close>, which no operation used by the service does either.
\<close>

datatype jsval =
    JUndefined
  | JNull
  | JBool bool
  | JNum real
  | JNaN
  | JInfinity bool
  | JStr string
  | JArr "jsval list"
  | JObj "(string \<times> jsval) list"

type_synonym jsobj = "(string \<times> jsval) list"

text \<open>Truthiness, as \<^verbatim>\<open>||\<close> and \<^verbatim>\<open>&&\<close> test it.\<close>

fun truthy :: "jsval \<Rightarrow> bool" where
  "truthy JUndefined = False"
| "truthy JNull = False"
| "truthy (JBool b) = b"
| "truthy (JNum r) = (r \<noteq> 0)"
| "truthy JNaN = False"
| "truthy (JInfinity _) = True"
| "truthy (JStr s) = (s \<noteq> [])"
| "truthy (JArr _) = True"
| "truthy (JObj _) = True"

text \<open>\<^verbatim>\<open>a || b\<close>: the left operand when it is truthy, the right one otherwise.\<close>

definition js_or :: "jsval \<Rightarrow> jsval \<Rightarrow> jsval" where
  "js_or a b = (if truthy a then a else b)"

fun nullish :: "jsval \<Rightarrow> bool" where
  "nullish JUndefined = True"
| "nullish JNull = True"
| "nullish _ = False"

text \<open>
  A property read on a value that is neither \<^verbatim>\<open>undefined\<close> nor \<^verbatim>\<open>null\<close>. The
  service reads only the names \<^verbatim>\<open>error\<close>, \<^verbatim>\<open>output\<close>, \<^verbatim>\<open>statusCode\<close>,
  \<^verbatim>\<open>message\<close> and the fields of request bodies and events; none of them is a built-in
  property of a string, number, boolean or array, so such a read gives \<^verbatim>\<open>undefined\<close>.
\<close>

fun get_prop :: "jsval \<Rightarrow> string \<Rightarrow> jsval" where
  "get_prop (JObj ps) k = (case map_of ps k of None \<Rightarrow> JUndefined | Some v \<Rightarrow> v)"
| "get_prop _ k = JUndefined"

text \<open>Destructuring \<^verbatim>\<open>const { k } = obj\<close> of an object.\<close>

definition field :: "jsobj \<Rightarrow> string \<Rightarrow> jsval" where
  "field obj k = get_prop (JObj obj) k"

definition omitted :: "jsobj \<Rightarrow> string \<Rightarrow> bool" where
  "omitted obj k = (map_of obj k = None)"

text \<open>Optional chaining \<^verbatim>\<open>v?.k\<close>.\<close>

definition opt_chain :: "jsval \<Rightarrow> string \<Rightarrow> jsval" where
  "opt_chain v k = (if nullish v then JUndefined else get_prop v k)"

text \<open>
  The \<^verbatim>\<open>TypeError\<close> that Node raises when property \<open>k\<close> of \<^verbatim>\<open>undefined\<close> or
  \<^verbatim>\<open>null\<close> is read.
\<close>

definition TypeError_reading :: "jsval \<Rightarrow> string \<Rightarrow> jsval" where
  "TypeError_reading base k =
     JObj [(''name'', JStr ''TypeError''),
           (''message'', JStr (''Cannot read properties of ''
              @ (if base = JNull then ''null'' else ''undefined'')
              @ '' (reading '' @ [CHR 0x27] @ k @ [CHR 0x27] @ '')''))]"

section \<open>The session: sockets, listeners and the service state\<close>

text \<open>
  \<^verbatim>\<open>sock.ev.on(name, f)\<close> registers one of two callbacks: the library's
  \<^verbatim>\<open>saveCreds\<close> and the closure of lines 58 to 71.
\<close>

datatype listener = saveCreds | connection_update

text \<open>
  A socket returned by \<^verbatim>\<open>makeWASocket\<close>, as far as the service uses it: its
  \<^verbatim>\<open>state\<close> property (read by \<^verbatim>\<open>GET /status\<close>; the library owns it and the
  service never writes it) and the listeners registered on \<^verbatim>\<open>sock.ev\<close>, in order.
  \<open>sid\<close> tells the sockets apart: it is the number of sockets made before this one.
\<close>

record wa_socket =
  sid :: nat
  state :: jsval
  listeners :: "(string \<times> listener) list"

text \<open>
  The state of the process: the global \<^verbatim>\<open>sock\<close> (\<open>None\<close> while it is
  \<^verbatim>\<open>undefined\<close>), every socket made so far (an abandoned socket keeps its listeners),
  the number of calls of \<^verbatim>\<open>startWhatsApp\<close> so far, and whether \<^verbatim>\<open>app.listen\<close> has
  been called.
\<close>

record service =
  sock :: "wa_socket option"
  sockets :: "wa_socket list"
  starts :: nat
  listening :: bool

definition initial :: service where
  "initial = \<lparr>sock = None, sockets = [], starts = 0, listening = False\<rparr>"

text \<open>What \<^verbatim>\<open>await sock.sendMessage(...)\<close> gives: it returns, or it throws a value.\<close>

datatype send_result = Resolved | Rejected jsval

text \<open>
  The session library (\<^verbatim>\<open>@whiskeysockets/baileys\<close>) is not part of the repository; the
  model takes its behaviour as a parameter: whether the \<open>n\<close>-th call of
  \<^verbatim>\<open>useMultiFileAuthState\<close> succeeds, the \<^verbatim>\<open>state\<close> property of the \<open>n\<close>-th socket
  it makes, and the result of \<^verbatim>\<open>sendMessage\<close> on a socket.
\<close>

record library =
  authLoads :: "nat \<Rightarrow> bool"
  socketState :: "nat \<Rightarrow> jsval"
  sendMessage :: "wa_socket \<Rightarrow> jsval \<Rightarrow> jsval \<Rightarrow> send_result"

definition wiring :: "(string \<times> listener) list" where
  "wiring = [(''creds.update'', saveCreds), (''connection.update'', connection_update)]"

text \<open>
  \<^verbatim>\<open>startWhatsApp\<close> (lines 46 to 72). When \<^verbatim>\<open>useMultiFileAuthState\<close> throws, the
  function stops there, and the model does not follow the rejected promise further.
  Otherwise it makes a socket, stores it in \<^verbatim>\<open>sock\<close> and registers the two
  listeners on it. The function is run to its end in one step: what else may run while
  it waits at its \<^verbatim>\<open>await\<close> is outside the model.
\<close>

definition startWhatsApp :: "library \<Rightarrow> service \<Rightarrow> service" where
  "startWhatsApp lib s =
     (let s1 = s\<lparr>starts := starts s + 1\<rparr> in
      if \<not> authLoads lib (starts s) then s1
      else
        let made = \<lparr>sid = length (sockets s), state = socketState lib (length (sockets s)),
                    listeners = []\<rparr>;
            wired_up = made\<lparr>listeners := listeners made @ wiring\<rparr>
        in s1\<lparr>sock := Some wired_up, sockets := sockets s @ [wired_up]\<rparr>)"

text \<open>\<^verbatim>\<open>lastDisconnect?.error?.output?.statusCode\<close> of an update (line 61).\<close>

definition close_code :: "jsobj \<Rightarrow> jsval" where
  "close_code update =
     opt_chain (opt_chain (opt_chain (field update ''lastDisconnect'') ''error'') ''output'')
       ''statusCode''"

text \<open>
  The \<^verbatim>\<open>connection.update\<close> listener (lines 58 to 71). The two branches that only
  write to the console leave the state as it is.
\<close>

definition on_connection_update :: "library \<Rightarrow> service \<Rightarrow> jsobj \<Rightarrow> service" where
  "on_connection_update lib s update =
     (let connection = field update ''connection'' in
      if connection = JStr ''close'' then
        (let errorCode = close_code update in
         if errorCode \<noteq> JNum 401 then startWhatsApp lib s else s)
      else if connection = JStr ''open'' then s
      else s)"

text \<open>
  Running one registered listener on an event's argument. What \<^verbatim>\<open>saveCreds\<close> writes is
  the library's business and no part of the service state.
\<close>

fun run_listener :: "library \<Rightarrow> jsobj \<Rightarrow> service \<Rightarrow> listener \<Rightarrow> service" where
  "run_listener lib arg s saveCreds = s"
| "run_listener lib arg s connection_update = on_connection_update lib s arg"

text \<open>
  The library emits event \<open>name\<close> on socket \<open>w\<close>: the listeners registered on \<open>w\<close> under
  that name run in the order of their registration.
\<close>

definition emit :: "library \<Rightarrow> service \<Rightarrow> wa_socket \<Rightarrow> string \<Rightarrow> jsobj \<Rightarrow> service" where
  "emit lib s w name arg =
     foldl (run_listener lib arg) s (map snd (filter (\<lambda>r. fst r = name) (listeners w)))"


text \<open>
  \<^verbatim>\<open>startService\<close> (lines 249 to 254): \<^verbatim>\<open>app.listen\<close> is reached only when
  \<^verbatim>\<open>await startWhatsApp()\<close> returns.
\<close>

definition startService :: "library \<Rightarrow> service \<Rightarrow> service" where
  "startService lib s =
     (let s1 = startWhatsApp lib s in
      if authLoads lib (starts s) then s1\<lparr>listening := True\<rparr> else s1)"

section \<open>The HTTP handlers\<close>

text \<open>
  What a handler did: its answer, the calls of \<^verbatim>\<open>sock.sendMessage\<close> it made (target
  and payload, in order) and the service state it leaves. The answer is a response
  (status code and JSON body; \<^verbatim>\<open>res.json\<close> alone answers with 200) or, when a
  value thrown in the handler is caught nowhere, that value. Console output is not part
  of the model. The request body is an object, as \<^verbatim>\<open>express.json()\<close> hands it to
  the handlers.
\<close>

datatype outcome = Responded nat jsval | Unhandled jsval

record reply =
  outcome :: outcome
  calls :: "(jsval \<times> jsval) list"
  after :: service

definition DEFAULT_TARGET_JID :: jsval where
  "DEFAULT_TARGET_JID = JStr ''YourPhoneNumber@s.whatsapp.net''"

text \<open>
  \<^verbatim>\<open>GET /status\<close> (lines 80 to 86): \<^verbatim>\<open>sock && sock.state\<close> decides between
  the two answers.
\<close>

definition GET_status :: "service \<Rightarrow> reply" where
  "GET_status s =
     (case sock s of
        None \<Rightarrow>
          \<lparr>outcome = Responded 200 (JObj [(''status'', JStr ''Not connected'')]),
           calls = [], after = s\<rparr>
      | Some w \<Rightarrow>
          if truthy (state w) then
            \<lparr>outcome = Responded 200 (JObj [(''status'', JStr ''Connected''),
                                             (''state'', state w)]),
             calls = [], after = s\<rparr>
          else
            \<lparr>outcome = Responded 200 (JObj [(''status'', JStr ''Not connected'')]),
             calls = [], after = s\<rparr>)"

text \<open>
  The \<^verbatim>\<open>catch (error)\<close> block every send handler has: it answers 500 with
  \<^verbatim>\<open>error.message\<close>. Reading \<^verbatim>\<open>message\<close> off \<^verbatim>\<open>undefined\<close> or \<^verbatim>\<open>null\<close>
  throws inside the block, and nothing catches that.
\<close>

definition catch_block :: "jsval \<Rightarrow> outcome" where
  "catch_block error =
     (if nullish error then Unhandled (TypeError_reading error ''message'')
      else Responded 500 (JObj [(''error'', get_prop error ''message'')]))"

text \<open>
  The \<^verbatim>\<open>try\<close> block every send handler has: \<^verbatim>\<open>await sock.sendMessage(target,
  payload)\<close>, then the answer that names the target. While \<^verbatim>\<open>sock\<close> is
  \<^verbatim>\<open>undefined\<close>, reading \<^verbatim>\<open>sock.sendMessage\<close> throws inside the block.
\<close>

definition try_send :: "library \<Rightarrow> service \<Rightarrow> jsval \<Rightarrow> jsval \<Rightarrow> string \<Rightarrow> reply" where
  "try_send lib s target payload sent =
     (case sock s of
        None \<Rightarrow>
          \<lparr>outcome = catch_block (TypeError_reading JUndefined ''sendMessage''),
           calls = [], after = s\<rparr>
      | Some w \<Rightarrow>
          (case sendMessage lib w target payload of
             Resolved \<Rightarrow>
               \<lparr>outcome = Responded 200 (JObj [(''status'', JStr sent), (''target'', target)]),
                calls = [(target, payload)], after = s\<rparr>
           | Rejected error \<Rightarrow>
               \<lparr>outcome = catch_block error, calls = [(target, payload)], after = s\<rparr>))"

definition POST_sendText :: "library \<Rightarrow> service \<Rightarrow> jsobj \<Rightarrow> reply" where
  "POST_sendText lib s body =
     (let jid = field body ''jid''; text = field body ''text'';
          target = js_or jid DEFAULT_TARGET_JID
      in try_send lib s target (JObj [(''text'', text)]) ''Text message sent'')"

definition POST_sendImage :: "library \<Rightarrow> service \<Rightarrow> jsobj \<Rightarrow> reply" where
  "POST_sendImage lib s body =
     (let jid = field body ''jid''; imageUrl = field body ''imageUrl'';
          caption = field body ''caption'';
          target = js_or jid DEFAULT_TARGET_JID
      in try_send lib s target
           (JObj [(''image'', JObj [(''url'', imageUrl)]),
                  (''caption'', js_or caption (JStr ''''))])
           ''Image message sent'')"

definition POST_sendVideo :: "library \<Rightarrow> service \<Rightarrow> jsobj \<Rightarrow> reply" where
  "POST_sendVideo lib s body =
     (let jid = field body ''jid''; videoUrl = field body ''videoUrl'';
          caption = field body ''caption''; videoNote = field body ''videoNote'';
          target = js_or jid DEFAULT_TARGET_JID
      in try_send lib s target
           (JObj [(''video'', JObj [(''url'', videoUrl)]),
                  (''caption'', js_or caption (JStr '''')),
                  (''gifPlayback'', js_or videoNote (JBool False))])
           ''Video message sent'')"

definition POST_sendAudio :: "library \<Rightarrow> service \<Rightarrow> jsobj \<Rightarrow> reply" where
  "POST_sendAudio lib s body =
     (let jid = field body ''jid''; audioUrl = field body ''audioUrl'';
          mimetype = field body ''mimetype'';
          target = js_or jid DEFAULT_TARGET_JID
      in try_send lib s target
           (JObj [(''audio'', JObj [(''url'', audioUrl)]),
                  (''mimetype'', js_or mimetype (JStr ''audio/mpeg''))])
           ''Audio message sent'')"

definition POST_sendDocument :: "library \<Rightarrow> service \<Rightarrow> jsobj \<Rightarrow> reply" where
  "POST_sendDocument lib s body =
     (let jid = field body ''jid''; documentUrl = field body ''documentUrl'';
          mimetype = field body ''mimetype''; filename = field body ''filename'';
          target = js_or jid DEFAULT_TARGET_JID
      in try_send lib s target
           (JObj [(''document'', JObj [(''url'', documentUrl)]),
                  (''mimetype'', js_or mimetype (JStr ''application/pdf'')),
                  (''fileName'', js_or filename (JStr ''document''))])
           ''Document message sent'')"

definition POST_sendLocation :: "library \<Rightarrow> service \<Rightarrow> jsobj \<Rightarrow> reply" where
  "POST_sendLocation lib s body =
     (let jid = field body ''jid''; latitude = field body ''latitude'';
          longitude = field body ''longitude''; name = field body ''name'';
          address = field body ''address'';
          target = js_or jid DEFAULT_TARGET_JID
      in try_send lib s target
           (JObj [(''location'',
                   JObj [(''degreesLatitude'', latitude), (''degreesLongitude'', longitude),
                         (''name'', js_or name (JStr '''')),
                         (''address'', js_or address (JStr ''''))])])
           ''Location message sent'')"

definition POST_sendContact :: "library \<Rightarrow> service \<Rightarrow> jsobj \<Rightarrow> reply" where
  "POST_sendContact lib s body =
     (let jid = field body ''jid''; vcard = field body ''vcard'';
          target = js_or jid DEFAULT_TARGET_JID
      in try_send lib s target
           (JObj [(''contacts'',
                   JObj [(''displayName'', JStr ''Contact''),
                         (''contacts'', JArr [JObj [(''vcard'', vcard)]])])])
           ''Contact message sent'')"

definition POST_sendReaction :: "library \<Rightarrow> service \<Rightarrow> jsobj \<Rightarrow> reply" where
  "POST_sendReaction lib s body =
     (let jid = field body ''jid''; reaction = field body ''reaction'';
          key = field body ''key'';
          target = js_or jid DEFAULT_TARGET_JID
      in try_send lib s target
           (JObj [(''react'', JObj [(''text'', reaction), (''key'', key)])])
           ''Reaction sent'')"

definition POST_sendPoll :: "library \<Rightarrow> service \<Rightarrow> jsobj \<Rightarrow> reply" where
  "POST_sendPoll lib s body =
     (let jid = field body ''jid''; pollName = field body ''pollName'';
          pollValues = field body ''pollValues'';
          selectableCount = field body ''selectableCount'';
          toAnnouncementGroup = field body ''toAnnouncementGroup'';
          target = js_or jid DEFAULT_TARGET_JID
      in try_send lib s target
           (JObj [(''poll'',
                   JObj [(''name'', pollName), (''values'', pollValues),
                         (''selectableCount'', selectableCount),
                         (''toAnnouncementGroup'', js_or toAnnouncementGroup (JBool False))])])
           ''Poll message sent'')"

text \<open>
  The nine send routes that \<^verbatim>\<open>app.post\<close> registers, by the kind of message, and
  the handler of each.
\<close>

datatype kind = Text | Image | Video | Audio | Document | Location | Contact | Reaction | Poll

fun send :: "library \<Rightarrow> service \<Rightarrow> kind \<Rightarrow> jsobj \<Rightarrow> reply" where
  "send lib s Text body = POST_sendText lib s body"
| "send lib s Image body = POST_sendImage lib s body"
| "send lib s Video body = POST_sendVideo lib s body"
| "send lib s Audio body = POST_sendAudio lib s body"
| "send lib s Document body = POST_sendDocument lib s body"
| "send lib s Location body = POST_sendLocation lib s body"
| "send lib s Contact body = POST_sendContact lib s body"
| "send lib s Reaction body = POST_sendReaction lib s body"
| "send lib s Poll body = POST_sendPoll lib s body"


section \<open>Notions the statements use\<close>

text \<open>
  Every socket the service has made carries exactly the two listeners that
  \<^verbatim>\<open>startWhatsApp\<close> registers.
\<close>

definition wired :: "service \<Rightarrow> bool" where
  "wired s = (\<forall>w \<in> set (sockets s). listeners w = wiring)"

text \<open>
  The states of the running process: \<^verbatim>\<open>startService()\<close> at the start, then any
  event the library emits on a socket it has made.
\<close>

inductive reachable :: "library \<Rightarrow> service \<Rightarrow> bool" for lib :: library where
  boot: "reachable lib (startService lib initial)"
| event: "reachable lib s \<Longrightarrow> w \<in> set (sockets s) \<Longrightarrow> reachable lib (emit lib s w name arg)"

text \<open>
  An event that makes the listener call \<^verbatim>\<open>startWhatsApp\<close>: a
  \<^verbatim>\<open>connection.update\<close> whose \<^verbatim>\<open>connection\<close> is \<^verbatim>\<open>"close"\<close> and whose code
  is not the number 401.
\<close>

definition transient_close :: "wa_socket \<times> string \<times> jsobj \<Rightarrow> bool" where
  "transient_close e =
     (case e of (w, name, update) \<Rightarrow>
        name = ''connection.update'' \<and> field update ''connection'' = JStr ''close''
        \<and> close_code update \<noteq> JNum 401)"

text \<open>
  The specification's ConnectionStatus, in its words: a view with three values,
  "computed from whether a live Connection exists and its last reported state". The
  argument is \<open>None\<close> when there is no handle, and the last state the handle reported
  otherwise; a handle that has reported \<^verbatim>\<open>close\<close> is no live connection, and one that
  has not reported \<^verbatim>\<open>open\<close> yet is connecting.
\<close>

datatype ConnectionStatus = Disconnected | Connecting | Connected

definition ConnectionStatus_of :: "jsval option \<Rightarrow> ConnectionStatus" where
  "ConnectionStatus_of handle =
     (case handle of
        None \<Rightarrow> Disconnected
      | Some reported \<Rightarrow>
          if reported = JStr ''open'' then Connected
          else if reported = JStr ''close'' then Disconnected
          else Connecting)"

text \<open>
  What the nine handlers have in common, for statements about every kind: the target
  \<^verbatim>\<open>jid || DEFAULT_TARGET_JID\<close>, the payload each handler builds, and the text of
  its answer.
\<close>

definition recipient :: "jsobj \<Rightarrow> jsval" where
  "recipient body = js_or (field body ''jid'') DEFAULT_TARGET_JID"

fun payload :: "kind \<Rightarrow> jsobj \<Rightarrow> jsval" where
  "payload Text body = JObj [(''text'', field body ''text'')]"
| "payload Image body =
     JObj [(''image'', JObj [(''url'', field body ''imageUrl'')]),
           (''caption'', js_or (field body ''caption'') (JStr ''''))]"
| "payload Video body =
     JObj [(''video'', JObj [(''url'', field body ''videoUrl'')]),
           (''caption'', js_or (field body ''caption'') (JStr '''')),
           (''gifPlayback'', js_or (field body ''videoNote'') (JBool False))]"
| "payload Audio body =
     JObj [(''audio'', JObj [(''url'', field body ''audioUrl'')]),
           (''mimetype'', js_or (field body ''mimetype'') (JStr ''audio/mpeg''))]"
| "payload Document body =
     JObj [(''document'', JObj [(''url'', field body ''documentUrl'')]),
           (''mimetype'', js_or (field body ''mimetype'') (JStr ''application/pdf'')),
           (''fileName'', js_or (field body ''filename'') (JStr ''document''))]"
| "payload Location body =
     JObj [(''location'',
            JObj [(''degreesLatitude'', field body ''latitude''),
                  (''degreesLongitude'', field body ''longitude''),
                  (''name'', js_or (field body ''name'') (JStr '''')),
                  (''address'', js_or (field body ''address'') (JStr ''''))])]"
| "payload Contact body =
     JObj [(''contacts'',
            JObj [(''displayName'', JStr ''Contact''),
                  (''contacts'', JArr [JObj [(''vcard'', field body ''vcard'')]])])]"
| "payload Reaction body =
     JObj [(''react'', JObj [(''text'', field body ''reaction''), (''key'', field body ''key'')])]"
| "payload Poll body =
     JObj [(''poll'',
            JObj [(''name'', field body ''pollName''), (''values'', field body ''pollValues''),
                  (''selectableCount'', field body ''selectableCount''),
                  (''toAnnouncementGroup'',
                   js_or (field body ''toAnnouncementGroup'') (JBool False))])]"

fun sent_text :: "kind \<Rightarrow> string" where
  "sent_text Text = ''Text message sent''"
| "sent_text Image = ''Image message sent''"
| "sent_text Video = ''Video message sent''"
| "sent_text Audio = ''Audio message sent''"
| "sent_text Document = ''Document message sent''"
| "sent_text Location = ''Location message sent''"
| "sent_text Contact = ''Contact message sent''"
| "sent_text Reaction = ''Reaction sent''"
| "sent_text Poll = ''Poll message sent''"

section \<open>Concrete libraries, events and requests\<close>

text \<open>
  An error as the library throws it on a socket that has closed, and two libraries:
  one whose \<^verbatim>\<open>sendMessage\<close> throws that error, one whose \<^verbatim>\<open>sendMessage\<close> returns.
  Their sockets have no \<^verbatim>\<open>state\<close> property.
\<close>

definition connection_closed :: jsval where
  "connection_closed =
     JObj [(''message'', JStr ''Connection Closed''),
           (''output'', JObj [(''statusCode'', JNum 428)])]"

definition lib_rejecting :: library where
  "lib_rejecting =
     \<lparr>authLoads = (\<lambda>n. True), socketState = (\<lambda>n. JUndefined),
      sendMessage = (\<lambda>w target content. Rejected connection_closed)\<rparr>"

definition lib_accepting :: library where
  "lib_accepting =
     \<lparr>authLoads = (\<lambda>n. True), socketState = (\<lambda>n. JUndefined),
      sendMessage = (\<lambda>w target content. Resolved)\<rparr>"

text \<open>The \<open>n\<close>-th socket that \<^verbatim>\<open>startWhatsApp\<close> makes with these libraries.\<close>

definition socket_no :: "nat \<Rightarrow> wa_socket" where
  "socket_no n = \<lparr>sid = n, state = JUndefined, listeners = wiring\<rparr>"


definition closed_bare :: jsobj where
  "closed_bare = [(''connection'', JStr ''close'')]"


definition hello :: jsobj where
  "hello = [(''jid'', JStr ''94770000000@s.whatsapp.net''), (''text'', JStr ''hello'')]"


text \<open>
  A close event whose disconnect information is absent or carries no status code: one of
  the links of \<^verbatim>\<open>lastDisconnect?.error?.output\<close> is \<^verbatim>\<open>undefined\<close> or \<^verbatim>\<open>null\<close>,
  or the last object has no \<^verbatim>\<open>statusCode\<close>.
\<close>

definition carries_no_code :: "jsobj \<Rightarrow> bool" where
  "carries_no_code update =
     (let lastDisconnect = field update ''lastDisconnect'';
          err = get_prop lastDisconnect ''error'';
          output = get_prop err ''output''
      in nullish lastDisconnect \<or> nullish err \<or> nullish output
         \<or> get_prop output ''statusCode'' = JUndefined)"




text \<open>
  A library whose sockets carry a \<^verbatim>\<open>state\<close> property that reads
  \<^verbatim>\<open>"connecting"\<close>.
\<close>

definition lib_stateful :: library where
  "lib_stateful =
     \<lparr>authLoads = (\<lambda>n. True), socketState = (\<lambda>n. JStr ''connecting''),
      sendMessage = (\<lambda>w target content. Resolved)\<rparr>"

text \<open>
  Requests: a text whose \<^verbatim>\<open>jid\<close> is the empty string, a video and a document with
  the optional fields left out, and a contact that brings a \<^verbatim>\<open>displayName\<close> of its
  own.
\<close>

definition blank_jid :: jsobj where
  "blank_jid = [(''jid'', JStr ''''), (''text'', JStr ''hello'')]"

definition bare_video :: jsobj where
  "bare_video = [(''videoUrl'', JStr ''x'')]"

definition bare_document :: jsobj where
  "bare_document = [(''documentUrl'', JStr ''x'')]"

definition named_contact :: jsobj where
  "named_contact =
     [(''vcard'', JStr ''BEGIN:VCARD''), (''displayName'', JStr ''Alice''),
      (''jid'', JStr ''94770000000@s.whatsapp.net'')]"

text \<open>The socket that \<^verbatim>\<open>startWhatsApp\<close> makes with \<open>lib_stateful\<close>.\<close>

definition stateful_socket :: wa_socket where
  "stateful_socket = \<lparr>sid = 0, state = JStr ''connecting'', listeners = wiring\<rparr>"

text \<open>
  A library whose \<^verbatim>\<open>sendMessage\<close> fails on a \<^verbatim>\<open>TypeError\<close> of its own, with the
  message of a read of \<^verbatim>\<open>sendMessage\<close> off \<^verbatim>\<open>undefined\<close>; and one whose
  \<^verbatim>\<open>sendMessage\<close> rejects without a reason, so that the value thrown at the
  \<^verbatim>\<open>await\<close> is \<^verbatim>\<open>undefined\<close>.
\<close>

definition lib_faulty :: library where
  "lib_faulty =
     \<lparr>authLoads = (\<lambda>n. True), socketState = (\<lambda>n. JUndefined),
      sendMessage = (\<lambda>w target content.
         Rejected (TypeError_reading JUndefined ''sendMessage''))\<rparr>"

definition lib_voiding :: library where
  "lib_voiding =
     \<lparr>authLoads = (\<lambda>n. True), socketState = (\<lambda>n. JUndefined),
      sendMessage = (\<lambda>w target content. Rejected JUndefined)\<rparr>"

section \<open>The connection life cycle\<close>

subsection \<open>Events and listeners\<close>

lemma emit_connection_update:
  "listeners w = wiring \<Longrightarrow>
   emit lib s w ''connection.update'' u = on_connection_update lib s u"
  by (simp add: emit_def wiring_def)

lemma emit_other_same:
  "listeners w = wiring \<Longrightarrow> name \<noteq> ''connection.update'' \<Longrightarrow> emit lib s w name u = s"
  by (simp add: emit_def wiring_def)

lemma starts_startWhatsApp: "starts (startWhatsApp lib s) = starts s + 1"
  by (simp add: startWhatsApp_def Let_def)

lemma on_connection_update_cases:
  "on_connection_update lib s u =
     (if field u ''connection'' = JStr ''close'' \<and> close_code u \<noteq> JNum 401
      then startWhatsApp lib s else s)"
  by (simp add: on_connection_update_def Let_def)

lemma emit_step:
  assumes "listeners w = wiring"
  shows "emit lib s w name u = (if transient_close (w, name, u) then startWhatsApp lib s else s)"
proof (cases "name = ''connection.update''")
  case True
  then show ?thesis
    using assms
    by (simp add: emit_connection_update on_connection_update_cases transient_close_def)
next
  case False
  then show ?thesis
    using assms by (simp add: emit_other_same transient_close_def)
qed



subsection \<open>The states the process reaches\<close>

lemma wired_initial: "wired initial"
  by (simp add: wired_def initial_def)

lemma wired_startWhatsApp: "wired s \<Longrightarrow> wired (startWhatsApp lib s)"
  by (auto simp add: wired_def startWhatsApp_def Let_def)

lemma wired_emit: "wired s \<Longrightarrow> listeners w = wiring \<Longrightarrow> wired (emit lib s w name u)"
  by (simp add: emit_step wired_startWhatsApp)

lemma wired_startService: "wired s \<Longrightarrow> wired (startService lib s)"
  using wired_startWhatsApp [of s lib]
  by (auto simp add: startService_def Let_def wired_def)

text \<open>Every socket of a reachable state carries the two listeners, once each.\<close>

lemma reachable_wired: "reachable lib s \<Longrightarrow> wired s"
proof (induction rule: reachable.induct)
  case boot
  show ?case by (rule wired_startService [OF wired_initial])
next
  case (event s w name arg)
  from event.IH event.hyps(2) have "listeners w = wiring" by (simp add: wired_def)
  with event.IH show ?case by (rule wired_emit)
qed

lemma sock_startWhatsApp: "sock s \<noteq> None \<Longrightarrow> sock (startWhatsApp lib s) \<noteq> None"
  by (simp add: startWhatsApp_def Let_def)

lemma listening_startWhatsApp: "listening (startWhatsApp lib s) = listening s"
  by (simp add: startWhatsApp_def Let_def)

text \<open>
  Requests are served only after \<^verbatim>\<open>app.listen\<close>, and from then on \<^verbatim>\<open>sock\<close> holds a
  socket: no handler of a running service sees \<^verbatim>\<open>sock\<close> undefined.
\<close>

lemma reachable_handle: "reachable lib s \<Longrightarrow> listening s \<Longrightarrow> sock s \<noteq> None"
proof (induction rule: reachable.induct)
  case boot
  then show ?case
    by (auto simp add: startService_def startWhatsApp_def initial_def Let_def split: if_splits)
next
  case (event s w name arg)
  from event.hyps have "wired s" by (simp add: reachable_wired)
  with event.hyps have w: "listeners w = wiring" by (simp add: wired_def)
  show ?case
  proof (cases "transient_close (w, name, arg)")
    case True
    with event.prems have "listening s"
      by (simp add: emit_step [OF w] listening_startWhatsApp)
    then have "sock s \<noteq> None" by (rule event.IH)
    then show ?thesis
      using True by (simp add: emit_step [OF w] sock_startWhatsApp)
  next
    case False
    then show ?thesis
      using event.prems event.IH by (simp add: emit_step [OF w])
  qed
qed

text \<open>The state after \<^verbatim>\<open>startService()\<close> with the library \<open>lib_accepting\<close>.\<close>

lemma started_accepting:
  "startService lib_accepting initial
     = \<lparr>sock = Some (socket_no 0), sockets = [socket_no 0], starts = 1, listening = True\<rparr>"
  by (simp add: startService_def startWhatsApp_def lib_accepting_def initial_def
      socket_no_def Let_def)

lemma listeners_socket_no: "listeners (socket_no n) = wiring"
  by (simp add: socket_no_def)



subsection \<open>The reconnect decision\<close>

lemma started_stateful:
  "startService lib_stateful initial
     = \<lparr>sock = Some stateful_socket, sockets = [stateful_socket], starts = 1,
        listening = True\<rparr>"
  by (simp add: startService_def startWhatsApp_def lib_stateful_def initial_def
      stateful_socket_def Let_def)

lemma handle_stateful: "sock (startService lib_stateful initial) = Some stateful_socket"
  by (simp add: started_stateful)




text \<open>
  When the authentication state loads, \<^verbatim>\<open>startWhatsApp\<close> leaves in \<^verbatim>\<open>sock\<close> a new
  socket on which \<^verbatim>\<open>saveCreds\<close> and the connection listener are registered, within
  the same step.
\<close>

lemma startWhatsApp_registers:
  assumes "authLoads lib (starts s)"
  shows "\<exists>w. sock (startWhatsApp lib s) = Some w \<and> listeners w = wiring
           \<and> sid w = length (sockets s) \<and> sockets (startWhatsApp lib s) = sockets s @ [w]"
  using assms by (simp add: startWhatsApp_def Let_def)

lemma close_code_undefined: "(close_code u = JUndefined) = carries_no_code u"
  by (auto simp add: close_code_def carries_no_code_def opt_chain_def Let_def)

text \<open>
  Claim C9. A close event whose disconnect information is absent or carries no status
  code has the close code \<^verbatim>\<open>undefined\<close>, which is not 401: the listener calls
  \<^verbatim>\<open>startWhatsApp\<close>, once.
\<close>

theorem close_without_code_reconnects:
  assumes "listeners w = wiring"
    and "field u ''connection'' = JStr ''close''"
    and "carries_no_code u"
  shows "close_code u = JUndefined
    \<and> emit lib s w ''connection.update'' u = startWhatsApp lib s
    \<and> starts (emit lib s w ''connection.update'' u) = starts s + 1"
proof -
  have code: "close_code u = JUndefined"
    using assms(3) by (simp add: close_code_undefined)
  then have "transient_close (w, ''connection.update'', u)"
    using assms(2) by (simp add: transient_close_def)
  then have "emit lib s w ''connection.update'' u = startWhatsApp lib s"
    using assms(1) by (simp add: emit_step)
  then show ?thesis
    using code by (simp add: starts_startWhatsApp)
qed

theorem close_without_code_reconnects_witness:
  "carries_no_code closed_bare
   \<and> close_code closed_bare = JUndefined
   \<and> starts (emit lib_accepting (startService lib_accepting initial) (socket_no 0)
        ''connection.update'' closed_bare) = 2
   \<and> sock (emit lib_accepting (startService lib_accepting initial) (socket_no 0)
        ''connection.update'' closed_bare) = Some (socket_no 1)"
proof -
  have c: "field closed_bare ''connection'' = JStr ''close''"
    by (simp add: closed_bare_def field_def)
  have bare: "carries_no_code closed_bare"
    by (simp add: carries_no_code_def closed_bare_def field_def)
  have s1: "startWhatsApp lib_accepting (startService lib_accepting initial)
              = \<lparr>sock = Some (socket_no 1), sockets = [socket_no 0, socket_no 1], starts = 2,
                 listening = True\<rparr>"
    unfolding started_accepting
    by (simp add: startWhatsApp_def lib_accepting_def socket_no_def Let_def)
  show ?thesis
    using close_without_code_reconnects [OF listeners_socket_no [of 0] c bare,
        of lib_accepting "startService lib_accepting initial"] bare
    by (simp add: s1)
qed


section \<open>Sending\<close>

subsection \<open>What the nine handlers share\<close>

lemma send_factored:
  "send lib s k body = try_send lib s (recipient body) (payload k body) (sent_text k)"
  by (cases k)
    (simp_all add: POST_sendText_def POST_sendImage_def POST_sendVideo_def POST_sendAudio_def
      POST_sendDocument_def POST_sendLocation_def POST_sendContact_def POST_sendReaction_def
      POST_sendPoll_def recipient_def Let_def)

lemma try_send_after: "after (try_send lib s t p m) = s"
  by (simp add: try_send_def split: option.split send_result.split)

lemma try_send_calls: "sock s = Some w \<Longrightarrow> calls (try_send lib s t p m) = [(t, p)]"
  by (simp add: try_send_def split: send_result.split)

lemma try_send_no_handle:
  "sock s = None \<Longrightarrow>
   try_send lib s t p m
     = \<lparr>outcome = Responded 500
           (JObj [(''error'',
                   get_prop (TypeError_reading JUndefined ''sendMessage'') ''message'')]),
        calls = [], after = s\<rparr>"
  by (simp add: try_send_def catch_block_def TypeError_reading_def)

lemma try_send_outcome:
  "sock s = Some w \<Longrightarrow>
   outcome (try_send lib s t p m)
     = (case sendMessage lib w t p of
          Resolved \<Rightarrow> Responded 200 (JObj [(''status'', JStr m), (''target'', t)])
        | Rejected e \<Rightarrow> catch_block e)"
  by (simp add: try_send_def split: send_result.split)

lemma recipient_cases:
  "recipient body = (case map_of body ''jid'' of
      None \<Rightarrow> DEFAULT_TARGET_JID
    | Some v \<Rightarrow> if truthy v then v else DEFAULT_TARGET_JID)"
  by (simp add: recipient_def js_or_def field_def DEFAULT_TARGET_JID_def split: option.split)

lemma started_rejecting:
  "startService lib_rejecting initial
     = \<lparr>sock = Some (socket_no 0), sockets = [socket_no 0], starts = 1, listening = True\<rparr>"
  by (simp add: startService_def startWhatsApp_def lib_rejecting_def initial_def
      socket_no_def Let_def)

lemma recipient_hello: "recipient hello = JStr ''94770000000@s.whatsapp.net''"
  by (simp add: recipient_cases hello_def)

lemma caught_connection_closed:
  "catch_block connection_closed = Responded 500 (JObj [(''error'', JStr ''Connection Closed'')])"
  by (simp add: catch_block_def connection_closed_def)

lemma handle_rejecting: "sock (startService lib_rejecting initial) = Some (socket_no 0)"
  by (simp add: started_rejecting)

lemma handle_accepting: "sock (startService lib_accepting initial) = Some (socket_no 0)"
  by (simp add: started_accepting)

lemma rejecting_throws: "sendMessage lib_rejecting w t p = Rejected connection_closed"
  by (simp add: lib_rejecting_def)

lemma accepting_returns: "sendMessage lib_accepting w t p = Resolved"
  by (simp add: lib_accepting_def)

subsection \<open>Sending while not connected\<close>




subsection \<open>The recipient\<close>

text \<open>
  Claim C4, as stated, fails: a request whose \<^verbatim>\<open>jid\<close> is present and is the empty
  string is sent to the fallback identifier, not to the identifier it gives.
\<close>

theorem recipient_verbatim_counterexample:
  "map_of blank_jid ''jid'' = Some (JStr '''')
   \<and> calls (send lib_accepting (startService lib_accepting initial) Text blank_jid)
       = [(DEFAULT_TARGET_JID, JObj [(''text'', JStr ''hello'')])]
   \<and> outcome (send lib_accepting (startService lib_accepting initial) Text blank_jid)
       = Responded 200 (JObj [(''status'', JStr ''Text message sent''),
                               (''target'', DEFAULT_TARGET_JID)])
   \<and> DEFAULT_TARGET_JID \<noteq> JStr ''''"
proof -
  have given: "map_of blank_jid ''jid'' = Some (JStr '''')"
    by (simp add: blank_jid_def)
  have target: "recipient blank_jid = DEFAULT_TARGET_JID"
    by (simp add: recipient_cases blank_jid_def)
  have content: "payload Text blank_jid = JObj [(''text'', JStr ''hello'')]"
    by (simp add: blank_jid_def field_def)
  have called: "calls (send lib_accepting (startService lib_accepting initial) Text blank_jid)
       = [(DEFAULT_TARGET_JID, JObj [(''text'', JStr ''hello'')])]"
    unfolding send_factored target content
    by (simp add: try_send_calls [OF handle_accepting])
  have answered:
    "outcome (send lib_accepting (startService lib_accepting initial) Text blank_jid)
       = Responded 200 (JObj [(''status'', JStr ''Text message sent''),
                               (''target'', DEFAULT_TARGET_JID)])"
    unfolding send_factored target content
    by (simp add: try_send_outcome [OF handle_accepting] accepting_returns)
  have differs: "DEFAULT_TARGET_JID \<noteq> JStr ''''"
    by (simp add: DEFAULT_TARGET_JID_def)
  from given called answered differs show ?thesis
    by blast
qed

text \<open>
  Claim C4, amended. For a request of any kind, sent while \<^verbatim>\<open>sock\<close> holds a socket: if
  the recipient is omitted, or is present but falsy (the empty string, \<^verbatim>\<open>null\<close>,
  \<^verbatim>\<open>false\<close>, \<^verbatim>\<open>0\<close>), the one call of \<^verbatim>\<open>sendMessage\<close> goes to the fallback
  identifier; if it is present and truthy, the call goes to that identifier verbatim.
\<close>

theorem recipient_resolution:
  assumes "sock s = Some w"
  shows "(omitted body ''jid'' \<longrightarrow>
            map fst (calls (send lib s k body)) = [DEFAULT_TARGET_JID])
    \<and> (\<forall>v. map_of body ''jid'' = Some v \<and> truthy v \<longrightarrow>
            map fst (calls (send lib s k body)) = [v])
    \<and> (\<forall>v. map_of body ''jid'' = Some v \<and> \<not> truthy v \<longrightarrow>
            map fst (calls (send lib s k body)) = [DEFAULT_TARGET_JID])"
proof -
  have "map fst (calls (send lib s k body)) = [recipient body]"
    by (simp add: send_factored try_send_calls [OF assms])
  then show ?thesis
    by (simp add: recipient_cases omitted_def)
qed

theorem recipient_resolution_witness:
  "map fst (calls (send lib_accepting (startService lib_accepting initial) Video bare_video))
     = [JStr ''YourPhoneNumber@s.whatsapp.net'']
   \<and> map fst (calls (send lib_accepting (startService lib_accepting initial) Poll hello))
       = [JStr ''94770000000@s.whatsapp.net'']
   \<and> map fst (calls (send lib_accepting (startService lib_accepting initial) Audio blank_jid))
       = [JStr ''YourPhoneNumber@s.whatsapp.net'']"
proof -
  have no_jid: "omitted bare_video ''jid''"
    by (simp add: omitted_def bare_video_def)
  have some_jid: "map_of hello ''jid'' = Some (JStr ''94770000000@s.whatsapp.net'')
                  \<and> truthy (JStr ''94770000000@s.whatsapp.net'')"
    by (simp add: hello_def)
  have empty_jid: "map_of blank_jid ''jid'' = Some (JStr '''') \<and> \<not> truthy (JStr '''')"
    by (simp add: blank_jid_def)
  have a: "map fst (calls (send lib_accepting (startService lib_accepting initial) Video
             bare_video)) = [DEFAULT_TARGET_JID]"
    using recipient_resolution [OF handle_accepting, of bare_video lib_accepting Video] no_jid
    by blast
  have b: "map fst (calls (send lib_accepting (startService lib_accepting initial) Poll hello))
             = [JStr ''94770000000@s.whatsapp.net'']"
    using recipient_resolution [OF handle_accepting, of hello lib_accepting Poll] some_jid
    by blast
  have c: "map fst (calls (send lib_accepting (startService lib_accepting initial) Audio
             blank_jid)) = [DEFAULT_TARGET_JID]"
    using recipient_resolution [OF handle_accepting, of blank_jid lib_accepting Audio] empty_jid
    by blast
  from a b c show ?thesis
    unfolding DEFAULT_TARGET_JID_def by blast
qed

subsection \<open>The payloads\<close>

lemma field_omitted: "omitted body k \<Longrightarrow> field body k = JUndefined"
  by (simp add: omitted_def field_def)

text \<open>
  Claim C5. A video request is forwarded with the payload of line 133: when the request
  omits \<^verbatim>\<open>caption\<close> the payload's \<^verbatim>\<open>caption\<close> is the empty string, and when it
  omits \<^verbatim>\<open>videoNote\<close> the payload's \<^verbatim>\<open>gifPlayback\<close> is \<^verbatim>\<open>false\<close>. A document
  request that omits \<^verbatim>\<open>mimetype\<close> is forwarded with the \<^verbatim>\<open>mimetype\<close>
  \<^verbatim>\<open>"application/pdf"\<close>, and one that omits \<^verbatim>\<open>filename\<close> with the
  \<^verbatim>\<open>fileName\<close> \<^verbatim>\<open>"document"\<close>.
\<close>

theorem video_and_document_defaults:
  assumes "sock s = Some w"
  shows "(\<exists>content. calls (POST_sendVideo lib s body) = [(recipient body, content)]
            \<and> get_prop content ''video'' = JObj [(''url'', field body ''videoUrl'')]
            \<and> (omitted body ''caption'' \<longrightarrow> get_prop content ''caption'' = JStr '''')
            \<and> (omitted body ''videoNote'' \<longrightarrow> get_prop content ''gifPlayback'' = JBool False))
    \<and> (\<exists>content. calls (POST_sendDocument lib s body) = [(recipient body, content)]
            \<and> get_prop content ''document'' = JObj [(''url'', field body ''documentUrl'')]
            \<and> (omitted body ''mimetype'' \<longrightarrow>
                  get_prop content ''mimetype'' = JStr ''application/pdf'')
            \<and> (omitted body ''filename'' \<longrightarrow> get_prop content ''fileName'' = JStr ''document''))"
proof -
  have video: "calls (POST_sendVideo lib s body) = [(recipient body, payload Video body)]"
    using send_factored [of lib s Video body] by (simp add: try_send_calls [OF assms])
  have document:
    "calls (POST_sendDocument lib s body) = [(recipient body, payload Document body)]"
    using send_factored [of lib s Document body] by (simp add: try_send_calls [OF assms])
  show ?thesis
    unfolding video document
    by (simp add: field_omitted js_or_def)
qed

theorem video_and_document_defaults_witness:
  "(\<exists>content.
      calls (POST_sendVideo lib_accepting (startService lib_accepting initial) bare_video)
        = [(JStr ''YourPhoneNumber@s.whatsapp.net'', content)]
      \<and> get_prop content ''video'' = JObj [(''url'', JStr ''x'')]
      \<and> get_prop content ''caption'' = JStr ''''
      \<and> get_prop content ''gifPlayback'' = JBool False)
   \<and> (\<exists>content.
      calls (POST_sendDocument lib_accepting (startService lib_accepting initial) bare_document)
        = [(JStr ''YourPhoneNumber@s.whatsapp.net'', content)]
      \<and> get_prop content ''document'' = JObj [(''url'', JStr ''x'')]
      \<and> get_prop content ''mimetype'' = JStr ''application/pdf''
      \<and> get_prop content ''fileName'' = JStr ''document'')"
proof -
  have v: "omitted bare_video ''caption'' \<and> omitted bare_video ''videoNote''"
    by (simp add: omitted_def bare_video_def)
  have d: "omitted bare_document ''mimetype'' \<and> omitted bare_document ''filename''"
    by (simp add: omitted_def bare_document_def)
  have tv: "recipient bare_video = JStr ''YourPhoneNumber@s.whatsapp.net''"
    by (simp add: recipient_cases bare_video_def DEFAULT_TARGET_JID_def)
  have td: "recipient bare_document = JStr ''YourPhoneNumber@s.whatsapp.net''"
    by (simp add: recipient_cases bare_document_def DEFAULT_TARGET_JID_def)
  have uv: "field bare_video ''videoUrl'' = JStr ''x''"
    by (simp add: bare_video_def field_def)
  have ud: "field bare_document ''documentUrl'' = JStr ''x''"
    by (simp add: bare_document_def field_def)
  have video: "\<exists>content.
      calls (POST_sendVideo lib_accepting (startService lib_accepting initial) bare_video)
        = [(JStr ''YourPhoneNumber@s.whatsapp.net'', content)]
      \<and> get_prop content ''video'' = JObj [(''url'', JStr ''x'')]
      \<and> get_prop content ''caption'' = JStr ''''
      \<and> get_prop content ''gifPlayback'' = JBool False"
    using video_and_document_defaults [OF handle_accepting, of lib_accepting bare_video] v
    unfolding tv uv by blast
  have document: "\<exists>content.
      calls (POST_sendDocument lib_accepting (startService lib_accepting initial) bare_document)
        = [(JStr ''YourPhoneNumber@s.whatsapp.net'', content)]
      \<and> get_prop content ''document'' = JObj [(''url'', JStr ''x'')]
      \<and> get_prop content ''mimetype'' = JStr ''application/pdf''
      \<and> get_prop content ''fileName'' = JStr ''document''"
    using video_and_document_defaults [OF handle_accepting, of lib_accepting bare_document] d
    unfolding td ud by blast
  from video document show ?thesis
    by (rule conjI)
qed

text \<open>
  Claim C10. The contact handler forwards the payload of line 201: its
  \<^verbatim>\<open>displayName\<close> is the literal \<^verbatim>\<open>"Contact"\<close> whatever the request holds, and of
  the request's fields only \<^verbatim>\<open>vcard\<close> enters it. Two requests with the same
  \<^verbatim>\<open>vcard\<close> are forwarded with the same payload.
\<close>

theorem contact_display_name_is_fixed:
  assumes "sock s = Some w"
  shows "calls (POST_sendContact lib s body)
           = [(recipient body,
               JObj [(''contacts'',
                      JObj [(''displayName'', JStr ''Contact''),
                            (''contacts'', JArr [JObj [(''vcard'', field body ''vcard'')]])])])]
    \<and> (field body ''vcard'' = field other ''vcard'' \<longrightarrow>
          map snd (calls (POST_sendContact lib s body))
            = map snd (calls (POST_sendContact lib s other)))"
proof -
  have "calls (POST_sendContact lib s b) = [(recipient b, payload Contact b)]" for b
    using send_factored [of lib s Contact b] by (simp add: try_send_calls [OF assms])
  then show ?thesis
    by simp
qed

theorem contact_display_name_is_fixed_witness:
  "calls (POST_sendContact lib_accepting (startService lib_accepting initial) named_contact)
     = [(JStr ''94770000000@s.whatsapp.net'',
         JObj [(''contacts'',
                JObj [(''displayName'', JStr ''Contact''),
                      (''contacts'', JArr [JObj [(''vcard'', JStr ''BEGIN:VCARD'')]])])])]
   \<and> map snd (calls (POST_sendContact lib_accepting (startService lib_accepting initial)
                  named_contact))
       = map snd (calls (POST_sendContact lib_accepting (startService lib_accepting initial)
                    [(''vcard'', JStr ''BEGIN:VCARD'')]))"
proof -
  have target: "recipient named_contact = JStr ''94770000000@s.whatsapp.net''"
    by (simp add: recipient_cases named_contact_def)
  have card: "field named_contact ''vcard'' = JStr ''BEGIN:VCARD''"
    by (simp add: named_contact_def field_def)
  have same: "field named_contact ''vcard'' = field [(''vcard'', JStr ''BEGIN:VCARD'')] ''vcard''"
    by (simp add: named_contact_def field_def)
  show ?thesis
    using contact_display_name_is_fixed [OF handle_accepting, of lib_accepting named_contact
        "[(''vcard'', JStr ''BEGIN:VCARD'')]"] same
    unfolding target card by blast
qed

subsection \<open>The answers\<close>

lemma catch_block_value:
  "\<not> nullish e \<Longrightarrow> catch_block e = Responded 500 (JObj [(''error'', get_prop e ''message'')])"
  by (simp add: catch_block_def)

lemma catch_block_answers:
  "catch_block e = Responded code b \<Longrightarrow>
   code = 500 \<and> b = JObj [(''error'', get_prop e ''message'')]"
  by (simp add: catch_block_def split: if_splits)

lemma started_faulty:
  "startService lib_faulty initial
     = \<lparr>sock = Some (socket_no 0), sockets = [socket_no 0], starts = 1, listening = True\<rparr>"
  by (simp add: startService_def startWhatsApp_def lib_faulty_def initial_def
      socket_no_def Let_def)

lemma handle_faulty: "sock (startService lib_faulty initial) = Some (socket_no 0)"
  by (simp add: started_faulty)

lemma faulty_throws:
  "sendMessage lib_faulty w t p = Rejected (TypeError_reading JUndefined ''sendMessage'')"
  by (simp add: lib_faulty_def)

lemma payload_text_hello: "payload Text hello = JObj [(''text'', JStr ''hello'')]"
  by (simp add: hello_def field_def)

text \<open>
  Claim C7, as stated, fails: a failed answer carries no kind of error, only a message.
  A send that fails because \<^verbatim>\<open>sock\<close> holds no socket (no call is made) and a send
  that fails because \<^verbatim>\<open>sendMessage\<close> threw an error with the same message (the call
  is made) give the very same answer. And where \<^verbatim>\<open>GET /status\<close> says
  "Not connected", a failed send answers with the library's message, not with an error of
  the kind NotConnected.
\<close>

theorem failure_kind_counterexample:
  "outcome (send lib_faulty initial Text hello)
     = outcome (send lib_faulty (startService lib_faulty initial) Text hello)
   \<and> outcome (send lib_faulty initial Text hello)
       = Responded 500
           (JObj [(''error'',
                   JStr (''Cannot read properties of undefined (reading ''
                         @ [CHR 0x27] @ ''sendMessage'' @ [CHR 0x27] @ '')''))])
   \<and> calls (send lib_faulty initial Text hello) = []
   \<and> calls (send lib_faulty (startService lib_faulty initial) Text hello)
       = [(JStr ''94770000000@s.whatsapp.net'', JObj [(''text'', JStr ''hello'')])]
   \<and> outcome (GET_status (startService lib_rejecting initial))
       = Responded 200 (JObj [(''status'', JStr ''Not connected'')])
   \<and> outcome (send lib_rejecting (startService lib_rejecting initial) Text hello)
       = Responded 500 (JObj [(''error'', JStr ''Connection Closed'')])"
proof -
  have none: "sock initial = None"
    by (simp add: initial_def)
  have message: "get_prop (TypeError_reading JUndefined ''sendMessage'') ''message''
      = JStr (''Cannot read properties of undefined (reading ''
              @ [CHR 0x27] @ ''sendMessage'' @ [CHR 0x27] @ '')'')"
    by (simp add: TypeError_reading_def)
  have proper: "\<not> nullish (TypeError_reading JUndefined ''sendMessage'')"
    by (simp add: TypeError_reading_def)
  have unstarted: "outcome (send lib_faulty initial Text hello)
       = Responded 500
           (JObj [(''error'',
                   get_prop (TypeError_reading JUndefined ''sendMessage'') ''message'')])"
    by (simp add: send_factored try_send_no_handle [OF none])
  have started: "outcome (send lib_faulty (startService lib_faulty initial) Text hello)
       = Responded 500
           (JObj [(''error'',
                   get_prop (TypeError_reading JUndefined ''sendMessage'') ''message'')])"
    by (simp add: send_factored try_send_outcome [OF handle_faulty] faulty_throws
        catch_block_value [OF proper])
  have uncalled: "calls (send lib_faulty initial Text hello) = []"
    by (simp add: send_factored try_send_no_handle [OF none])
  have called: "calls (send lib_faulty (startService lib_faulty initial) Text hello)
       = [(JStr ''94770000000@s.whatsapp.net'', JObj [(''text'', JStr ''hello'')])]"
    unfolding send_factored recipient_hello payload_text_hello
    by (simp add: try_send_calls [OF handle_faulty])
  have status: "outcome (GET_status (startService lib_rejecting initial))
       = Responded 200 (JObj [(''status'', JStr ''Not connected'')])"
    by (simp add: started_rejecting GET_status_def socket_no_def)
  have failed: "outcome (send lib_rejecting (startService lib_rejecting initial) Text hello)
       = Responded 500 (JObj [(''error'', JStr ''Connection Closed'')])"
    unfolding send_factored recipient_hello payload_text_hello
    by (simp add: try_send_outcome [OF handle_rejecting] rejecting_throws
        caught_connection_closed)
  from unstarted started uncalled called status failed show ?thesis
    unfolding message by simp
qed

text \<open>
  Claim C7, amended. For a request of any kind, sent while \<^verbatim>\<open>sock\<close> holds a socket:
  when \<^verbatim>\<open>sendMessage\<close> returns, the answer is the success that carries the resolved
  recipient as its \<^verbatim>\<open>target\<close>; when \<^verbatim>\<open>sendMessage\<close> throws an error, the answer
  is the failure 500 whose body is the error's \<^verbatim>\<open>message\<close> and nothing else. Every
  answer is one of these two: a failure names no kind of error.
\<close>

theorem send_answers_carry:
  assumes "sock s = Some w"
  shows "(sendMessage lib w (recipient body) (payload k body) = Resolved \<longrightarrow>
           outcome (send lib s k body)
             = Responded 200 (JObj [(''status'', JStr (sent_text k)),
                                     (''target'', recipient body)]))
    \<and> (\<forall>e. sendMessage lib w (recipient body) (payload k body) = Rejected e
             \<and> \<not> nullish e \<longrightarrow>
           outcome (send lib s k body)
             = Responded 500 (JObj [(''error'', get_prop e ''message'')]))
    \<and> (\<forall>code b. outcome (send lib s k body) = Responded code b \<longrightarrow>
           code = 200 \<and> b = JObj [(''status'', JStr (sent_text k)), (''target'', recipient body)]
             \<and> sendMessage lib w (recipient body) (payload k body) = Resolved
           \<or> code = 500
             \<and> (\<exists>e. sendMessage lib w (recipient body) (payload k body) = Rejected e
                    \<and> b = JObj [(''error'', get_prop e ''message'')]))"
proof -
  have with_handle:
    "outcome (send lib s k body)
       = (case sendMessage lib w (recipient body) (payload k body) of
            Resolved \<Rightarrow>
              Responded 200 (JObj [(''status'', JStr (sent_text k)),
                                   (''target'', recipient body)])
          | Rejected e \<Rightarrow> catch_block e)"
    by (simp add: send_factored try_send_outcome [OF assms])
  have classified:
    "code = 200 \<and> b = JObj [(''status'', JStr (sent_text k)), (''target'', recipient body)]
       \<and> sendMessage lib w (recipient body) (payload k body) = Resolved
     \<or> code = 500
       \<and> (\<exists>e. sendMessage lib w (recipient body) (payload k body) = Rejected e
              \<and> b = JObj [(''error'', get_prop e ''message'')])"
    if "outcome (send lib s k body) = Responded code b" for code b
  proof (cases "sendMessage lib w (recipient body) (payload k body)")
    case Resolved
    with that show ?thesis
      by (auto simp add: with_handle)
  next
    case (Rejected e)
    with that have "catch_block e = Responded code b"
      by (simp add: with_handle)
    then have "code = 500 \<and> b = JObj [(''error'', get_prop e ''message'')]"
      by (rule catch_block_answers)
    with Rejected show ?thesis
      by simp
  qed
  have returned:
    "outcome (send lib s k body)
       = Responded 200 (JObj [(''status'', JStr (sent_text k)), (''target'', recipient body)])"
    if "sendMessage lib w (recipient body) (payload k body) = Resolved"
    using that by (simp add: with_handle)
  have thrown:
    "outcome (send lib s k body) = Responded 500 (JObj [(''error'', get_prop e ''message'')])"
    if "sendMessage lib w (recipient body) (payload k body) = Rejected e" and "\<not> nullish e"
    for e
    using that by (simp add: with_handle catch_block_value)
  show ?thesis
  proof (intro conjI allI impI)
    assume "sendMessage lib w (recipient body) (payload k body) = Resolved"
    then show "outcome (send lib s k body)
       = Responded 200 (JObj [(''status'', JStr (sent_text k)), (''target'', recipient body)])"
      by (rule returned)
  next
    fix e
    assume "sendMessage lib w (recipient body) (payload k body) = Rejected e \<and> \<not> nullish e"
    then show "outcome (send lib s k body)
                 = Responded 500 (JObj [(''error'', get_prop e ''message'')])"
      using thrown by blast
  next
    fix code b
    assume "outcome (send lib s k body) = Responded code b"
    then show "code = 200
       \<and> b = JObj [(''status'', JStr (sent_text k)), (''target'', recipient body)]
       \<and> sendMessage lib w (recipient body) (payload k body) = Resolved
     \<or> code = 500
       \<and> (\<exists>e. sendMessage lib w (recipient body) (payload k body) = Rejected e
              \<and> b = JObj [(''error'', get_prop e ''message'')])"
      by (rule classified)
  qed
qed

theorem send_answers_carry_witness:
  "outcome (send lib_accepting (startService lib_accepting initial) Reaction hello)
     = Responded 200 (JObj [(''status'', JStr ''Reaction sent''),
                             (''target'', JStr ''94770000000@s.whatsapp.net'')])
   \<and> outcome (send lib_rejecting (startService lib_rejecting initial) Location hello)
       = Responded 500 (JObj [(''error'', JStr ''Connection Closed'')])"
proof -
  have proper: "\<not> nullish connection_closed"
    and its_message: "get_prop connection_closed ''message'' = JStr ''Connection Closed''"
    by (simp_all add: connection_closed_def)
  note accepted = send_answers_carry
    [OF handle_accepting, of lib_accepting hello Reaction]
  note rejected = send_answers_carry
    [OF handle_rejecting, of lib_rejecting hello Location]
  have a: "outcome (send lib_accepting (startService lib_accepting initial) Reaction hello)
     = Responded 200 (JObj [(''status'', JStr (sent_text Reaction)),
                             (''target'', recipient hello)])"
    by (rule accepted [THEN conjunct1, rule_format, OF accepting_returns])
  have b: "outcome (send lib_rejecting (startService lib_rejecting initial) Location hello)
       = Responded 500 (JObj [(''error'', get_prop connection_closed ''message'')])"
    by (rule rejected [THEN conjunct2, THEN conjunct1, rule_format,
          OF conjI [OF rejecting_throws proper]])
  from a b show ?thesis
    unfolding recipient_hello its_message by simp
qed

text \<open>
  The one way out of the \<^verbatim>\<open>catch\<close> block: a call that throws \<^verbatim>\<open>undefined\<close> or
  \<^verbatim>\<open>null\<close>. Reading \<^verbatim>\<open>error.message\<close> throws in turn, inside the block.
\<close>

lemma thrown_nullish_escapes:
  "sock s = Some w \<Longrightarrow> sendMessage lib w (recipient body) (payload k body) = Rejected e \<Longrightarrow>
   nullish e \<Longrightarrow>
   outcome (send lib s k body) = Unhandled (TypeError_reading e ''message'')"
  by (simp add: send_factored try_send_outcome catch_block_def)

text \<open>
  Everywhere else the handlers do return the error as a value. For a request of any kind
  and every thrown value but \<^verbatim>\<open>undefined\<close> and \<^verbatim>\<open>null\<close>, the handler answers 500
  with the error's message and nothing leaves it uncaught; the error raised by a missing
  handle is answered the same way. A send makes at most the one call of
  \<^verbatim>\<open>sendMessage\<close> and leaves the service state as it is.
\<close>

lemma send_errors_are_answered:
  "(\<forall>w e. sock s = Some w
            \<and> sendMessage lib w (recipient body) (payload k body) = Rejected e
            \<and> \<not> nullish e \<longrightarrow>
       outcome (send lib s k body) = Responded 500 (JObj [(''error'', get_prop e ''message'')])
       \<and> (\<forall>x. outcome (send lib s k body) \<noteq> Unhandled x)
       \<and> calls (send lib s k body) = [(recipient body, payload k body)])
   \<and> (sock s = None \<longrightarrow>
        (\<exists>b. outcome (send lib s k body) = Responded 500 b)
        \<and> calls (send lib s k body) = [])
   \<and> after (send lib s k body) = s"
proof (intro conjI allI impI)
  fix w e
  assume thrown: "sock s = Some w
            \<and> sendMessage lib w (recipient body) (payload k body) = Rejected e
            \<and> \<not> nullish e"
  then have handle: "sock s = Some w" by simp
  show answered:
    "outcome (send lib s k body) = Responded 500 (JObj [(''error'', get_prop e ''message'')])"
    using thrown by (simp add: send_factored try_send_outcome [OF handle] catch_block_value)
  show "outcome (send lib s k body) \<noteq> Unhandled x" for x
    by (simp add: answered)
  show "calls (send lib s k body) = [(recipient body, payload k body)]"
    by (simp add: send_factored try_send_calls [OF handle])
next
  assume "sock s = None"
  then have none: "send lib s k body
     = \<lparr>outcome = Responded 500
           (JObj [(''error'',
                   get_prop (TypeError_reading JUndefined ''sendMessage'') ''message'')]),
        calls = [], after = s\<rparr>"
    by (simp add: send_factored try_send_no_handle)
  show "\<exists>b. outcome (send lib s k body) = Responded 500 b"
    by (simp add: none)
  show "calls (send lib s k body) = []"
    by (simp add: none)
next
  show "after (send lib s k body) = s"
    by (simp add: send_factored try_send_after)
qed

lemma started_voiding:
  "startService lib_voiding initial
     = \<lparr>sock = Some (socket_no 0), sockets = [socket_no 0], starts = 1, listening = True\<rparr>"
  by (simp add: startService_def startWhatsApp_def lib_voiding_def initial_def
      socket_no_def Let_def)

text \<open>
  Claim C8: every error that the underlying send raises is returned to the caller as an
  error response and never leaves the handler as a fault, and a send changes no local
  state. The \<^verbatim>\<open>try\<close> and \<^verbatim>\<open>catch\<close> of every handler are there for this, and miss
  one case. On the running service, let \<^verbatim>\<open>sendMessage\<close> reject without a reason: the
  text \<open>hello\<close> is passed to \<^verbatim>\<open>sendMessage\<close>, the \<^verbatim>\<open>catch\<close> block reads
  \<^verbatim>\<open>error.message\<close> off \<^verbatim>\<open>undefined\<close>, and the \<^verbatim>\<open>TypeError\<close> of that read
  leaves the handler with no response sent. The service state is left as it was.
\<close>

theorem thrown_undefined_leaves_handler:
  "reachable lib_voiding (startService lib_voiding initial)
   \<and> listening (startService lib_voiding initial)
   \<and> sock (startService lib_voiding initial) = Some (socket_no 0)
   \<and> sendMessage lib_voiding (socket_no 0) (JStr ''94770000000@s.whatsapp.net'')
        (JObj [(''text'', JStr ''hello'')]) = Rejected JUndefined
   \<and> calls (send lib_voiding (startService lib_voiding initial) Text hello)
       = [(JStr ''94770000000@s.whatsapp.net'', JObj [(''text'', JStr ''hello'')])]
   \<and> outcome (send lib_voiding (startService lib_voiding initial) Text hello)
       = Unhandled (TypeError_reading JUndefined ''message'')
   \<and> after (send lib_voiding (startService lib_voiding initial) Text hello)
       = startService lib_voiding initial"
proof -
  have reached: "reachable lib_voiding (startService lib_voiding initial)"
    by (rule reachable.boot)
  have serving: "listening (startService lib_voiding initial)"
    by (simp add: started_voiding)
  have handle: "sock (startService lib_voiding initial) = Some (socket_no 0)"
    by (simp add: started_voiding)
  have rejects: "sendMessage lib_voiding w t p = Rejected JUndefined" for w t p
    by (simp add: lib_voiding_def)
  have called: "calls (send lib_voiding (startService lib_voiding initial) Text hello)
       = [(JStr ''94770000000@s.whatsapp.net'', JObj [(''text'', JStr ''hello'')])]"
    unfolding send_factored recipient_hello payload_text_hello
    by (simp add: try_send_calls [OF handle])
  have escaped: "outcome (send lib_voiding (startService lib_voiding initial) Text hello)
       = Unhandled (TypeError_reading JUndefined ''message'')"
    by (rule thrown_nullish_escapes [OF handle rejects]) simp
  have unchanged: "after (send lib_voiding (startService lib_voiding initial) Text hello)
       = startService lib_voiding initial"
    by (simp add: send_factored try_send_after)
  from reached serving handle rejects called escaped unchanged show ?thesis
    by blast
qed

section \<open>The status\<close>

text \<open>
  Claim C3, as stated, fails: the answer is never Connecting. Right after
  \<^verbatim>\<open>startService()\<close> a handle exists that has not reported \<^verbatim>\<open>open\<close>, so that the
  specification's view is Connecting. Where the socket's \<^verbatim>\<open>state\<close> reads
  \<^verbatim>\<open>"connecting"\<close> the handler answers "Connected"; where the socket has no
  \<^verbatim>\<open>state\<close> it answers "Not connected".
\<close>

theorem status_three_values_counterexample:
  "ConnectionStatus_of (map_option state (sock (startService lib_stateful initial))) = Connecting
   \<and> outcome (GET_status (startService lib_stateful initial))
       = Responded 200 (JObj [(''status'', JStr ''Connected''),
                               (''state'', JStr ''connecting'')])
   \<and> ConnectionStatus_of (map_option state (sock (startService lib_accepting initial)))
       = Connecting
   \<and> outcome (GET_status (startService lib_accepting initial))
       = Responded 200 (JObj [(''status'', JStr ''Not connected'')])"
  by (simp add: started_stateful stateful_socket_def started_accepting socket_no_def
      GET_status_def
      ConnectionStatus_of_def)

text \<open>
  Claim C3, amended. \<^verbatim>\<open>GET /status\<close> gives one of exactly two answers. It answers
  "Connected", with the socket's \<^verbatim>\<open>state\<close>, when \<^verbatim>\<open>sock\<close> holds a socket whose
  \<^verbatim>\<open>state\<close> property is truthy, and "Not connected" otherwise; it never answers
  Connecting. It always answers, with the status code 200, calls nothing and leaves the
  service state as it is.
\<close>

theorem status_two_answers:
  "(\<forall>w. sock s = Some w \<longrightarrow> truthy (state w) \<longrightarrow>
      outcome (GET_status s)
        = Responded 200 (JObj [(''status'', JStr ''Connected''), (''state'', state w)]))
   \<and> (\<forall>w. sock s = Some w \<longrightarrow> \<not> truthy (state w) \<longrightarrow>
        outcome (GET_status s) = Responded 200 (JObj [(''status'', JStr ''Not connected'')]))
   \<and> (sock s = None \<longrightarrow>
        outcome (GET_status s) = Responded 200 (JObj [(''status'', JStr ''Not connected'')]))
   \<and> (outcome (GET_status s) = Responded 200 (JObj [(''status'', JStr ''Not connected'')])
        \<or> (\<exists>v. truthy v
                \<and> outcome (GET_status s)
                    = Responded 200 (JObj [(''status'', JStr ''Connected''), (''state'', v)])))
   \<and> calls (GET_status s) = []
   \<and> after (GET_status s) = s"
  by (cases "sock s") (simp_all add: GET_status_def)

theorem status_two_answers_witness:
  "outcome (GET_status (startService lib_stateful initial))
     = Responded 200 (JObj [(''status'', JStr ''Connected''), (''state'', JStr ''connecting'')])
   \<and> outcome (GET_status (startService lib_accepting initial))
       = Responded 200 (JObj [(''status'', JStr ''Not connected'')])
   \<and> outcome (GET_status initial)
       = Responded 200 (JObj [(''status'', JStr ''Not connected'')])
   \<and> after (GET_status initial) = initial"
proof -
  have truthy_state: "truthy (state stateful_socket)"
    by (simp add: stateful_socket_def)
  have handle_s: "sock (startService lib_stateful initial) = Some stateful_socket"
    by (rule handle_stateful)
  have reads: "state stateful_socket = JStr ''connecting''"
    by (simp add: stateful_socket_def)
  have falsy_state: "\<not> truthy (state (socket_no 0))"
    by (simp add: socket_no_def)
  have none: "sock initial = None"
    by (simp add: initial_def)
  have a: "outcome (GET_status (startService lib_stateful initial))
     = Responded 200 (JObj [(''status'', JStr ''Connected''), (''state'', JStr ''connecting'')])"
    using status_two_answers [of "startService lib_stateful initial"] handle_s truthy_state
    by (simp add: reads)
  have b: "outcome (GET_status (startService lib_accepting initial))
       = Responded 200 (JObj [(''status'', JStr ''Not connected'')])"
    using status_two_answers [of "startService lib_accepting initial"] handle_accepting
      falsy_state
    by simp
  have c: "outcome (GET_status initial)
             = Responded 200 (JObj [(''status'', JStr ''Not connected'')])
           \<and> after (GET_status initial) = initial"
    using status_two_answers [of initial] none by blast
  from a b c show ?thesis by blast
qed


end
